theory Spec2Isabelle
  imports Main
begin

section \<open>JavaScript values\<close>

text \<open>
  The server is a TypeScript module (\<^verbatim>\<open>src/index.ts\<close>) whose handlers take
  \<^verbatim>\<open>args: any\<close>. A tool call carries a name and, unless the client leaves it out, an
  argument object whose members are strings or numbers, or are missing; \<open>jsval\<close> holds
  these scalars (with \<open>null\<close> and the booleans, which JSON can carry too), and
  \<open>JUndefined\<close> is what reading a missing member gives. Numbers are the integers below \<open>10^21\<close> in magnitude, which JavaScript prints in
  plain decimal.
\<close>

datatype jsval = JUndefined | JNull | JBool bool | JNum int | JStr string

text \<open>A response body is any JSON value.\<close>

datatype json = Scalar jsval | Array "json list" | Object "(string \<times> json) list"

text \<open>The values the module throws or lets through.\<close>

datatype ErrorCode = ParseError | InvalidRequest | MethodNotFound | InvalidParams | InternalError

record axios_response =
  status :: int
  data :: json

text \<open>
  An axios error has its own \<^verbatim>\<open>message\<close> and, when the server answered, the
  \<^verbatim>\<open>response\<close>. \<open>Error\<close> and \<open>TypeError\<close> carry their message, \<open>McpError\<close> the code and
  the message it is constructed with.
\<close>

record axios_error =
  message :: string
  response :: "axios_response option"

datatype js_error =
    Error string
  | TypeError string
  | McpError ErrorCode string
  | AxiosError axios_error

text \<open>Truthiness, as \<^verbatim>\<open>if (x)\<close>, \<^verbatim>\<open>!x\<close> and \<^verbatim>\<open>x || y\<close> test it.\<close>

fun truthy :: "jsval \<Rightarrow> bool" where
  "truthy JUndefined = False"
| "truthy JNull = False"
| "truthy (JBool b) = b"
| "truthy (JNum n) = (n \<noteq> 0)"
| "truthy (JStr s) = (s \<noteq> [])"

fun json_truthy :: "json \<Rightarrow> bool" where
  "json_truthy (Scalar v) = truthy v"
| "json_truthy (Array xs) = True"
| "json_truthy (Object kvs) = True"

text \<open>String conversion, as a template literal applies it to \<^verbatim>\<open>${x}\<close>.\<close>

fun digits :: "nat \<Rightarrow> string" where
  "digits n = (if n < 10 then [''0123456789'' ! n]
               else digits (n div 10) @ [''0123456789'' ! (n mod 10)])"

declare digits.simps [simp del]

definition Number_toString :: "int \<Rightarrow> string" where
  "Number_toString n = (if n < 0 then ''-'' @ digits (nat (- n)) else digits (nat n))"

fun ToString :: "jsval \<Rightarrow> string" where
  "ToString JUndefined = ''undefined''"
| "ToString JNull = ''null''"
| "ToString (JBool b) = (if b then ''true'' else ''false'')"
| "ToString (JNum n) = Number_toString n"
| "ToString (JStr s) = s"

fun join :: "string \<Rightarrow> string list \<Rightarrow> string" where
  "join sep [] = []"
| "join sep [x] = x"
| "join sep (x # y # ys) = x @ sep @ join sep (y # ys)"

text \<open>
  An object is converted by the \<^verbatim>\<open>toString\<close> it inherits; a parsed JSON object with a
  member of that name of its own hides the inherited method by a value that cannot be
  called, and the conversion throws. An array joins the conversions of its elements, with
  \<open>null\<close> and \<open>undefined\<close> left empty.
\<close>

fun json_ToString :: "json \<Rightarrow> js_error + string" where
  "json_ToString (Scalar v) = Inr (ToString v)"
| "json_ToString (Object kvs) =
     (if ''toString'' \<in> fst ` set kvs
      then Inl (TypeError ''Cannot convert object to primitive value'')
      else Inr ''[object Object]'')"
| "json_ToString (Array xs) =
     (let parts = map (\<lambda>x. case x of Scalar JUndefined \<Rightarrow> Inr []
                                    | Scalar JNull \<Rightarrow> Inr []
                                    | _ \<Rightarrow> json_ToString x) xs
      in case List.find isl parts of
           Some (Inl e) \<Rightarrow> Inl e
         | _ \<Rightarrow> Inr (join '','' (map projr parts)))"

text \<open>
  \<^verbatim>\<open>data?.message\<close>: only an object can have the member; on \<open>null\<close> and \<open>undefined\<close>
  the optional chain stops, and on the other values the lookup finds nothing.
\<close>

fun member_message :: "json \<Rightarrow> json" where
  "member_message (Object kvs) =
     (case map_of kvs ''message'' of None \<Rightarrow> Scalar JUndefined | Some v \<Rightarrow> v)"
| "member_message d = Scalar JUndefined"

section \<open>The HTTP client\<close>

text \<open>
  \<^verbatim>\<open>axios.create({baseURL, headers})\<close> fixes the configuration once; a request adds the
  path and the \<^verbatim>\<open>params\<close> object, whose members keep the order they were set in.
\<close>

record axios_config =
  baseURL :: string
  headers :: "(string \<times> string) list"

record http_request = axios_config +
  url :: string
  params :: "(string \<times> jsval) list"

text \<open>
  The upstream API answers a request with a response, or the client rejects with an
  error. A handler's effect is the list of the requests it issued, with what it returned
  or threw.
\<close>

type_synonym upstream = "http_request \<Rightarrow> js_error + axios_response"

type_synonym 'a effect = "http_request list \<times> (js_error + 'a)"

definition request_of :: "axios_config \<Rightarrow> string \<Rightarrow> (string \<times> jsval) list \<Rightarrow> http_request" where
  "request_of inst u ps =
     \<lparr>baseURL = baseURL inst, headers = headers inst, url = u, params = ps\<rparr>"

definition axios_get ::
  "axios_config \<Rightarrow> upstream \<Rightarrow> string \<Rightarrow> (string \<times> jsval) list \<Rightarrow> axios_response effect" where
  "axios_get inst up u ps = ([request_of inst u ps], up (request_of inst u ps))"


definition requests :: "'a effect \<Rightarrow> http_request list" where
  "requests e = fst e"

definition outcome :: "'a effect \<Rightarrow> js_error + 'a" where
  "outcome e = snd e"

section \<open>The tool registry\<close>

record property_schema =
  prop_type :: string
  prop_enum :: "string list option"
  prop_description :: string
  minimum :: "int option"
  maximum :: "int option"

record input_schema =
  schema_type :: string
  properties :: "(string \<times> property_schema) list"
  required :: "string list option"

record tool =
  name :: string
  description :: string
  inputSchema :: input_schema

definition string_prop :: "string \<Rightarrow> property_schema" where
  "string_prop d = \<lparr>prop_type = ''string'', prop_enum = None, prop_description = d,
                    minimum = None, maximum = None\<rparr>"

definition enum_prop :: "string list \<Rightarrow> string \<Rightarrow> property_schema" where
  "enum_prop vs d = \<lparr>prop_type = ''string'', prop_enum = Some vs, prop_description = d,
                     minimum = None, maximum = None\<rparr>"

definition number_prop :: "string \<Rightarrow> int \<Rightarrow> int \<Rightarrow> property_schema" where
  "number_prop d lo hi = \<lparr>prop_type = ''number'', prop_enum = None, prop_description = d,
                          minimum = Some lo, maximum = Some hi\<rparr>"

text \<open>The handler of \<^verbatim>\<open>ListToolsRequestSchema\<close>.\<close>

definition ListTools :: "tool list" where
  "ListTools =
    [ \<lparr>name = ''get_sport_news'',
       description = ''Get news for a specific sport'',
       inputSchema = \<lparr>schema_type = ''object'',
         properties =
           [(''sport'', enum_prop [''nfl'', ''mlb'', ''nba'', ''nhl''] ''Sport to get news for''),
            (''limit'', number_prop ''Number of news items to return (max 25)'' 1 25),
            (''category'', enum_prop [''injury'', ''recap'', ''transaction'', ''rumor'', ''breaking'']
                              ''Type of news to show'')],
         required = Some [''sport'']\<rparr>\<rparr>,
      \<lparr>name = ''get_players'',
       description = ''Get player information for a specific sport'',
       inputSchema = \<lparr>schema_type = ''object'',
         properties =
           [(''sport'', enum_prop [''nfl'', ''mlb'', ''nba'', ''nhl''] ''Sport to get players for''),
            (''playerId'', string_prop ''Filter by specific player ID'')],
         required = Some [''sport'']\<rparr>\<rparr>,
      \<lparr>name = ''get_rankings'',
       description = ''Get consensus rankings for a sport'',
       inputSchema = \<lparr>schema_type = ''object'',
         properties =
           [(''sport'', enum_prop [''nfl'', ''nba''] ''Sport to get rankings for''),
            (''position'', string_prop ''Position to filter by''),
            (''scoring'', enum_prop [''STD'', ''PPR'', ''HALF''] ''Scoring type (for NFL)'')],
         required = Some [''sport'']\<rparr>\<rparr>,
      \<lparr>name = ''get_projections'',
       description = ''Get player projections for a sport'',
       inputSchema = \<lparr>schema_type = ''object'',
         properties =
           [(''sport'', enum_prop [''nfl'', ''mlb'', ''nba''] ''Sport to get projections for''),
            (''season'', string_prop ''Season year''),
            (''week'', string_prop ''Week number (for NFL)''),
            (''position'', string_prop ''Position to filter by'')],
         required = Some [''sport'', ''season'']\<rparr>\<rparr>,
      \<lparr>name = ''get_all_news'',
       description = ''Get all news from FantasyPros'',
       inputSchema = \<lparr>schema_type = ''object'',
         properties =
           [(''limit'', number_prop ''Number of news items to return (max 25)'' 1 25),
            (''category'', enum_prop [''injury'', ''recap'', ''transaction'', ''rumor'', ''breaking'']
                              ''Type of news items to show'')],
         required = None\<rparr>\<rparr> ]"

section \<open>The tool handlers\<close>

text \<open>
  A tool result is a content list with one text item. The text of a successful call is
  \<^verbatim>\<open>JSON.stringify(response.data, null, 2)\<close>, kept as the body it prints.
\<close>

datatype text_value = Literal string | JSON_stringify json

record content_item =
  item_type :: string
  item_text :: text_value

record tool_result =
  content :: "content_item list"
  isError :: "bool option"

text \<open>
  \<^verbatim>\<open>request.params.name\<close> and \<^verbatim>\<open>request.params.arguments\<close>. The arguments are
  optional in the protocol: \<open>None\<close> is a call without them, which the handler receives as
  \<open>undefined\<close>.
\<close>

record tool_call =
  tc_name :: string
  tc_arguments :: "(string \<rightharpoonup> jsval) option"

text \<open>
  Destructuring \<^verbatim>\<open>const { k, j = d } = args\<close>: a missing member reads as \<open>undefined\<close>, and
  a default replaces \<open>undefined\<close> only. Destructuring \<open>undefined\<close> itself throws a
  \<^verbatim>\<open>TypeError\<close> that names the first member of the pattern (the wording is the one
  Node prints); every handler starts with this statement, so a call without arguments
  ends there, before any request.
\<close>

definition is_TypeError :: "js_error + 'a \<Rightarrow> bool" where
  "is_TypeError r = (case r of Inl (TypeError m) \<Rightarrow> True | _ \<Rightarrow> False)"

definition arg :: "(string \<rightharpoonup> jsval) \<Rightarrow> string \<Rightarrow> jsval" where
  "arg args k = (case args k of None \<Rightarrow> JUndefined | Some v \<Rightarrow> v)"

definition arg_default :: "(string \<rightharpoonup> jsval) \<Rightarrow> string \<Rightarrow> jsval \<Rightarrow> jsval" where
  "arg_default args k d = (if arg args k = JUndefined then d else arg args k)"

definition json_text :: "axios_response effect \<Rightarrow> tool_result effect" where
  "json_text e =
     (case e of
        (log, Inl err) \<Rightarrow> (log, Inl err)
      | (log, Inr resp) \<Rightarrow>
          (log, Inr \<lparr>content = [\<lparr>item_type = ''text'', item_text = JSON_stringify (data resp)\<rparr>],
                     isError = None\<rparr>))"

definition getNews ::
  "axios_config \<Rightarrow> upstream \<Rightarrow> (string \<rightharpoonup> jsval) option \<Rightarrow> tool_result effect" where
  "getNews inst up args =
     (case args of
        None \<Rightarrow>
          ([], Inl (TypeError
             ''Cannot destructure property 'sport' of 'args' as it is undefined.''))
      | Some a \<Rightarrow>
         (let sport = arg a ''sport'';
              limit = arg_default a ''limit'' (JNum 25);
              category = arg a ''category'';
              ps = [(''limit'', limit)];
              ps = (if truthy category then ps @ [(''category'', category)] else ps)
          in json_text (axios_get inst up (''/'' @ ToString sport @ ''/news'') ps)))"

definition getPlayers ::
  "axios_config \<Rightarrow> upstream \<Rightarrow> (string \<rightharpoonup> jsval) option \<Rightarrow> tool_result effect" where
  "getPlayers inst up args =
     (case args of
        None \<Rightarrow>
          ([], Inl (TypeError
             ''Cannot destructure property 'sport' of 'args' as it is undefined.''))
      | Some a \<Rightarrow>
         (let sport = arg a ''sport'';
              playerId = arg a ''playerId'';
              ps = [];
              ps = (if truthy playerId then ps @ [(''player'', playerId)] else ps)
          in json_text (axios_get inst up (''/'' @ ToString sport @ ''/players'') ps)))"

text \<open>
  \<^verbatim>\<open>new Date().getFullYear()\<close> reads the clock; the year it gives is the parameter
  \<open>year\<close>, an integer that \<^verbatim>\<open>toString()\<close> prints in plain decimal (a date's year
  is below 300000 in magnitude).
\<close>

definition getRankings ::
  "axios_config \<Rightarrow> int \<Rightarrow> upstream \<Rightarrow> (string \<rightharpoonup> jsval) option \<Rightarrow> tool_result effect" where
  "getRankings inst year up args =
     (case args of
        None \<Rightarrow>
          ([], Inl (TypeError
             ''Cannot destructure property 'sport' of 'args' as it is undefined.''))
      | Some a \<Rightarrow>
         (let sport = arg a ''sport'';
              position = arg_default a ''position'' (JStr ''ALL'');
              scoring = arg_default a ''scoring'' (JStr ''STD'');
              season = Number_toString year;
              ps = [(''position'', position), (''scoring'', scoring)]
          in json_text (axios_get inst up
               (''/'' @ ToString sport @ ''/'' @ season @ ''/consensus-rankings'') ps)))"

definition getProjections ::
  "axios_config \<Rightarrow> upstream \<Rightarrow> (string \<rightharpoonup> jsval) option \<Rightarrow> tool_result effect" where
  "getProjections inst up args =
     (case args of
        None \<Rightarrow>
          ([], Inl (TypeError
             ''Cannot destructure property 'sport' of 'args' as it is undefined.''))
      | Some a \<Rightarrow>
         (let sport = arg a ''sport'';
              season = arg a ''season'';
              week = arg a ''week'';
              position = arg a ''position'';
              ps = [];
              ps = (if truthy week then ps @ [(''week'', week)] else ps);
              ps = (if truthy position then ps @ [(''position'', position)] else ps)
          in json_text (axios_get inst up
               (''/'' @ ToString sport @ ''/'' @ ToString season @ ''/projections'') ps)))"

definition getAllNews ::
  "axios_config \<Rightarrow> upstream \<Rightarrow> (string \<rightharpoonup> jsval) option \<Rightarrow> tool_result effect" where
  "getAllNews inst up args =
     (case args of
        None \<Rightarrow>
          ([], Inl (TypeError
             ''Cannot destructure property 'limit' of 'args' as it is undefined.''))
      | Some a \<Rightarrow>
         (let limit = arg_default a ''limit'' (JNum 25);
              category = arg a ''category'';
              ps = [(''limit'', limit)];
              ps = (if truthy category then ps @ [(''category'', category)] else ps)
          in json_text (axios_get inst up ''/json/all/news'' ps)))"

text \<open>The \<^verbatim>\<open>switch\<close> of the call handler.\<close>

definition dispatch ::
  "axios_config \<Rightarrow> int \<Rightarrow> upstream \<Rightarrow> tool_call \<Rightarrow> tool_result effect" where
  "dispatch inst year up tc =
     (if tc_name tc = ''get_sport_news'' then getNews inst up (tc_arguments tc)
      else if tc_name tc = ''get_players'' then getPlayers inst up (tc_arguments tc)
      else if tc_name tc = ''get_rankings'' then getRankings inst year up (tc_arguments tc)
      else if tc_name tc = ''get_projections'' then getProjections inst up (tc_arguments tc)
      else if tc_name tc = ''get_all_news'' then getAllNews inst up (tc_arguments tc)
      else ([], Inl (McpError MethodNotFound (''Unknown tool: '' @ tc_name tc))))"

text \<open>
  The \<^verbatim>\<open>catch\<close> clause: the text of the error result is
  \<^verbatim>\<open>`FantasyPros API error: ${error.response?.data?.message || error.message}`\<close>.
\<close>

definition upstream_message :: "axios_error \<Rightarrow> json" where
  "upstream_message e =
     (case response e of
        None \<Rightarrow> Scalar JUndefined
      | Some r \<Rightarrow>
          (case data r of
             Scalar JUndefined \<Rightarrow> Scalar JUndefined
           | Scalar JNull \<Rightarrow> Scalar JUndefined
           | d \<Rightarrow> member_message d))"

definition error_text :: "axios_error \<Rightarrow> js_error + string" where
  "error_text e =
     (let m = upstream_message e;
          shown = (if json_truthy m then m else Scalar (JStr (message e)))
      in case json_ToString shown of
           Inl err \<Rightarrow> Inl err
         | Inr s \<Rightarrow> Inr (''FantasyPros API error: '' @ s))"

definition error_result :: "string \<Rightarrow> tool_result" where
  "error_result s = \<lparr>content = [\<lparr>item_type = ''text'', item_text = Literal s\<rparr>],
                     isError = Some True\<rparr>"

text \<open>
  The handler of \<^verbatim>\<open>CallToolRequestSchema\<close>. Its \<^verbatim>\<open>catch\<close> clause turns an error that
  \<^verbatim>\<open>axios.isAxiosError\<close> accepts into an error result and throws every other error
  again.
\<close>

definition CallTool ::
  "axios_config \<Rightarrow> int \<Rightarrow> upstream \<Rightarrow> tool_call \<Rightarrow> tool_result effect" where
  "CallTool inst year up tc =
     (case dispatch inst year up tc of
        (log, Inr res) \<Rightarrow> (log, Inr res)
      | (log, Inl (AxiosError e)) \<Rightarrow>
          (case error_text e of
             Inl err \<Rightarrow> (log, Inl err)
           | Inr s \<Rightarrow> (log, Inr (error_result s)))
      | (log, Inl e) \<Rightarrow> (log, Inl e))"

section \<open>Startup\<close>

text \<open>
  The module reads \<^verbatim>\<open>process.env.FANTASYPROS_API_KEY\<close> and throws when it is missing or
  empty; the constructor then creates the one client every handler uses.
\<close>

definition startup :: "(string \<rightharpoonup> string) \<Rightarrow> js_error + axios_config" where
  "startup env =
     (let API_KEY = (case env ''FANTASYPROS_API_KEY'' of None \<Rightarrow> JUndefined | Some k \<Rightarrow> JStr k)
      in if \<not> truthy API_KEY
         then Inl (Error ''FANTASYPROS_API_KEY environment variable is required'')
         else Inr \<lparr>baseURL = ''https://api.fantasypros.com/public/v2'',
                   headers = [(''x-api-key'', ToString API_KEY)]\<rparr>)"

section \<open>The registry table of the specification\<close>

text \<open>
  Section 4.1 of the specification lists, for each tool, its required fields, its optional
  fields and the fields whose values are enumerated or bounded. \<open>registry_table\<close> is
  that table as written there; \<open>registry_row\<close> reads the same facts off a tool entry
  of the listing.
\<close>

datatype constraint = OneOf "string set" | Bounds "int option" "int option"

type_synonym registry_row =
  "string \<times> string set \<times> string set \<times> (string \<times> constraint) set"

definition sport_news_categories :: "string set" where
  "sport_news_categories = {''injury'', ''recap'', ''transaction'', ''rumor'', ''breaking''}"

definition registry_table :: "registry_row list" where
  "registry_table =
    [ (''get_sport_news'', {''sport''}, {''limit'', ''category''},
         {(''sport'', OneOf {''nfl'', ''mlb'', ''nba'', ''nhl''}),
          (''category'', OneOf sport_news_categories),
          (''limit'', Bounds (Some 1) (Some 25))}),
      (''get_players'', {''sport''}, {''playerId''},
         {(''sport'', OneOf {''nfl'', ''mlb'', ''nba'', ''nhl''})}),
      (''get_rankings'', {''sport''}, {''position'', ''scoring''},
         {(''sport'', OneOf {''nfl'', ''nba''}),
          (''scoring'', OneOf {''STD'', ''PPR'', ''HALF''})}),
      (''get_projections'', {''sport'', ''season''}, {''week'', ''position''},
         {(''sport'', OneOf {''nfl'', ''mlb'', ''nba''})}),
      (''get_all_news'', {}, {''limit'', ''category''},
         {(''category'', OneOf sport_news_categories),
          (''limit'', Bounds (Some 1) (Some 25))}) ]"

definition required_fields :: "tool \<Rightarrow> string list" where
  "required_fields t = (case required (inputSchema t) of None \<Rightarrow> [] | Some rs \<Rightarrow> rs)"

definition optional_fields :: "tool \<Rightarrow> string list" where
  "optional_fields t =
     filter (\<lambda>k. k \<notin> set (required_fields t)) (map fst (properties (inputSchema t)))"

definition constraints_of :: "property_schema \<Rightarrow> constraint list" where
  "constraints_of p =
     (case prop_enum p of None \<Rightarrow> [] | Some vs \<Rightarrow> [OneOf (set vs)]) @
     (if minimum p = None \<and> maximum p = None then [] else [Bounds (minimum p) (maximum p)])"

definition tool_constraints :: "tool \<Rightarrow> (string \<times> constraint) list" where
  "tool_constraints t =
     concat (map (\<lambda>(k, p). map (Pair k) (constraints_of p)) (properties (inputSchema t)))"

definition registry_row :: "tool \<Rightarrow> registry_row" where
  "registry_row t =
     (name t, set (required_fields t), set (optional_fields t), set (tool_constraints t))"

section \<open>Sample inputs\<close>

definition example_client :: axios_config where
  "example_client = \<lparr>baseURL = ''https://api.fantasypros.com/public/v2'',
                      headers = [(''x-api-key'', ''secret'')]\<rparr>"

definition up_ok :: upstream where
  "up_ok req = Inr \<lparr>status = 200, data = Object [(''items'', Array [])]\<rparr>"

definition up_500 :: "json \<Rightarrow> upstream" where
  "up_500 body req =
     Inl (AxiosError \<lparr>message = ''Request failed with status code 500'',
                      response = Some \<lparr>status = 500, data = body\<rparr>\<rparr>)"

definition up_down :: upstream where
  "up_down req = Inl (AxiosError \<lparr>message = ''Network Error'', response = None\<rparr>)"

section \<open>Auxiliary facts\<close>

lemma requests_pair: "requests (l, r) = l"
  by (simp add: requests_def)

lemma outcome_pair: "outcome (l, r) = r"
  by (simp add: outcome_def)

lemma requests_json_text: "requests (json_text e) = requests e"
  by (cases e) (simp add: requests_def json_text_def split: sum.splits)

lemma requests_axios_get: "requests (axios_get inst up u ps) = [request_of inst u ps]"
  by (simp add: requests_def axios_get_def)

lemma requests_CallTool:
  "requests (CallTool inst year up tc) = requests (dispatch inst year up tc)"
  by (cases "dispatch inst year up tc")
     (simp add: CallTool_def requests_def split: sum.splits js_error.splits)

lemma requests_getNews:
  "requests (getNews inst up (Some args)) =
     [request_of inst (''/'' @ ToString (arg args ''sport'') @ ''/news'')
        ((''limit'', arg_default args ''limit'' (JNum 25)) #
         (if truthy (arg args ''category'') then [(''category'', arg args ''category'')]
          else []))]"
  by (simp add: getNews_def Let_def requests_json_text requests_axios_get)

lemma requests_getAllNews:
  "requests (getAllNews inst up (Some args)) =
     [request_of inst ''/json/all/news''
        ((''limit'', arg_default args ''limit'' (JNum 25)) #
         (if truthy (arg args ''category'') then [(''category'', arg args ''category'')]
          else []))]"
  by (simp add: getAllNews_def Let_def requests_json_text requests_axios_get)

lemma requests_getPlayers:
  "requests (getPlayers inst up (Some args)) =
     [request_of inst (''/'' @ ToString (arg args ''sport'') @ ''/players'')
        (if truthy (arg args ''playerId'') then [(''player'', arg args ''playerId'')] else [])]"
  by (simp add: getPlayers_def Let_def requests_json_text requests_axios_get)

lemma requests_getRankings:
  "requests (getRankings inst year up (Some args)) =
     [request_of inst
        (''/'' @ ToString (arg args ''sport'') @ ''/'' @ Number_toString year @
         ''/consensus-rankings'')
        [(''position'', arg_default args ''position'' (JStr ''ALL'')),
         (''scoring'', arg_default args ''scoring'' (JStr ''STD''))]]"
  by (simp add: getRankings_def Let_def requests_json_text requests_axios_get)

lemma requests_getProjections:
  "requests (getProjections inst up (Some args)) =
     [request_of inst
        (''/'' @ ToString (arg args ''sport'') @ ''/'' @ ToString (arg args ''season'') @
         ''/projections'')
        ((if truthy (arg args ''week'') then [(''week'', arg args ''week'')] else []) @
         (if truthy (arg args ''position'') then [(''position'', arg args ''position'')]
          else []))]"
  by (simp add: getProjections_def Let_def requests_json_text requests_axios_get)

lemmas requests_handlers = requests_getNews requests_getAllNews requests_getPlayers
  requests_getRankings requests_getProjections

text \<open>A call without arguments issues no request and ends with a \<^verbatim>\<open>TypeError\<close>.\<close>

lemma requests_no_arguments:
  "requests (getNews inst up None) = []"
  "requests (getAllNews inst up None) = []"
  "requests (getPlayers inst up None) = []"
  "requests (getRankings inst year up None) = []"
  "requests (getProjections inst up None) = []"
  by (simp_all add: getNews_def getAllNews_def getPlayers_def getRankings_def
      getProjections_def requests_pair)

lemma outcome_no_arguments:
  "is_TypeError (outcome (getNews inst up None))"
  "is_TypeError (outcome (getAllNews inst up None))"
  "is_TypeError (outcome (getPlayers inst up None))"
  "is_TypeError (outcome (getRankings inst year up None))"
  "is_TypeError (outcome (getProjections inst up None))"
  by (simp_all add: getNews_def getAllNews_def getPlayers_def getRankings_def
      getProjections_def outcome_pair is_TypeError_def)

lemma requests_dispatch:
  "requests (dispatch inst year up tc) =
     (if tc_name tc = ''get_sport_news'' then requests (getNews inst up (tc_arguments tc))
      else if tc_name tc = ''get_players'' then requests (getPlayers inst up (tc_arguments tc))
      else if tc_name tc = ''get_rankings''
        then requests (getRankings inst year up (tc_arguments tc))
      else if tc_name tc = ''get_projections''
        then requests (getProjections inst up (tc_arguments tc))
      else if tc_name tc = ''get_all_news'' then requests (getAllNews inst up (tc_arguments tc))
      else [])"
  by (simp add: dispatch_def requests_pair)

lemmas requests_eval = requests_CallTool requests_dispatch requests_handlers
  requests_no_arguments

lemma outcome_CallTool_TypeError:
  "is_TypeError (outcome (dispatch inst year up tc)) \<Longrightarrow>
   outcome (CallTool inst year up tc) = outcome (dispatch inst year up tc)"
  by (cases "dispatch inst year up tc")
     (simp add: CallTool_def outcome_def is_TypeError_def split: sum.splits js_error.splits)

lemma tool_names: "set (map name ListTools) =
  {''get_sport_news'', ''get_players'', ''get_rankings'', ''get_projections'', ''get_all_news''}"
  by (simp add: ListTools_def)

text \<open>A handler issues one request and hands on what the upstream gives for it.\<close>

lemma handler_shape:
  "json_text (axios_get inst up u ps) = json_text ([request_of inst u ps], up (request_of inst u ps))"
  by (simp add: axios_get_def)

lemma dispatch_registered:
  assumes "tc_name tc \<in> set (map name ListTools)"
    and args: "tc_arguments tc = Some args"
  shows "\<exists>req. dispatch inst year up tc = json_text ([req], up req)"
proof -
  consider "tc_name tc = ''get_sport_news''" | "tc_name tc = ''get_players''"
    | "tc_name tc = ''get_rankings''" | "tc_name tc = ''get_projections''"
    | "tc_name tc = ''get_all_news''"
    using assms(1) unfolding tool_names by blast
  then show ?thesis
  proof cases
    case 1 with args show ?thesis
      by (simp add: dispatch_def getNews_def Let_def handler_shape) blast
  next
    case 2 with args show ?thesis
      by (simp add: dispatch_def getPlayers_def Let_def handler_shape) blast
  next
    case 3 with args show ?thesis
      by (simp add: dispatch_def getRankings_def Let_def handler_shape) blast
  next
    case 4 with args show ?thesis
      by (simp add: dispatch_def getProjections_def Let_def handler_shape) blast
  next
    case 5 with args show ?thesis
      by (simp add: dispatch_def getAllNews_def Let_def handler_shape) blast
  qed
qed

text \<open>
  Without arguments every registered tool ends in the destructuring: no request, and a
  \<^verbatim>\<open>TypeError\<close> that the \<^verbatim>\<open>catch\<close> clause throws again.
\<close>

lemma no_arguments_no_request:
  assumes "tc_name tc \<in> set (map name ListTools)"
    and none: "tc_arguments tc = None"
  shows "requests (CallTool inst year up tc) = [] \<and>
         is_TypeError (outcome (CallTool inst year up tc))"
proof -
  have "is_TypeError (outcome (dispatch inst year up tc))"
    using assms(1) none unfolding tool_names
    by (auto simp add: dispatch_def outcome_no_arguments)
  with outcome_CallTool_TypeError [of inst year up tc]
  have "is_TypeError (outcome (CallTool inst year up tc))"
    by simp
  moreover have "requests (CallTool inst year up tc) = []"
    using none by (simp add: requests_eval)
  ultimately show ?thesis by simp
qed

lemma CallTool_failure:
  assumes "dispatch inst year up tc = json_text ([req], Inl (AxiosError e))"
    and "json_ToString (upstream_message e) = Inr s"
  shows "CallTool inst year up tc =
    ([req], Inr (error_result (''FantasyPros API error: '' @
        (if json_truthy (upstream_message e) then s else message e))))"
  using assms
  by (simp add: CallTool_def json_text_def error_text_def error_result_def Let_def)

text \<open>
  Every scalar converts to a string, and a value that is not truthy is a scalar; so the
  conversion in the \<^verbatim>\<open>catch\<close> clause can fail on a truthy upstream message only.
\<close>

lemma scalar_converts: "json_ToString (Scalar v) = Inr (ToString v)"
  by simp

lemma falsy_converts: "\<not> json_truthy j \<Longrightarrow> \<exists>s. json_ToString j = Inr s"
  by (cases j) simp_all

text \<open>
  String conversion in the \<^verbatim>\<open>catch\<close> clause can itself throw: an error body
  \<^verbatim>\<open>{"message": {"toString": null}}\<close> makes the handler end with a \<^verbatim>\<open>TypeError\<close>.
\<close>

lemma unconvertible_message_throws:
  "outcome (CallTool example_client 2025
      (up_500 (Object [(''message'', Object [(''toString'', Scalar JNull)])]))
      \<lparr>tc_name = ''get_all_news'', tc_arguments = Some Map.empty\<rparr>) =
     Inl (TypeError ''Cannot convert object to primitive value'')"
  by (simp add: upstream_message_def CallTool_def dispatch_def getAllNews_def json_text_def
      axios_get_def up_500_def error_text_def outcome_def Let_def)

lemma requests_carry_config:
  "\<forall>req \<in> set (requests (CallTool inst year up tc)).
     baseURL req = baseURL inst \<and> headers req = headers inst"
  by (cases "tc_arguments tc") (simp_all add: requests_eval request_of_def)

section \<open>Dispatch\<close>

text \<open>
  Claim C1. A tool call whose name is not one of the five registered tools fails with a
  method-not-found error whose message names the requested tool, and issues no HTTP
  request. The \<^verbatim>\<open>default\<close> branch throws before any handler runs, and the
  \<^verbatim>\<open>catch\<close> clause rethrows what is not an axios error.
\<close>

theorem unknown_tool_method_not_found:
  assumes "tc_name tc \<notin> set (map name ListTools)"
  shows "requests (CallTool inst year up tc) = [] \<and>
         outcome (CallTool inst year up tc) =
           Inl (McpError MethodNotFound (''Unknown tool: '' @ tc_name tc))"
  using assms
  by (simp add: ListTools_def CallTool_def dispatch_def requests_def outcome_def)

theorem unknown_tool_method_not_found_witness:
  "''get_weather'' \<notin> set (map name ListTools) \<and>
   requests (CallTool example_client 2025 up_ok
      \<lparr>tc_name = ''get_weather'', tc_arguments = Some Map.empty\<rparr>) = [] \<and>
   outcome (CallTool example_client 2025 up_ok
      \<lparr>tc_name = ''get_weather'', tc_arguments = Some Map.empty\<rparr>) =
     Inl (McpError MethodNotFound ''Unknown tool: get_weather'')"
proof -
  have h: "tc_name \<lparr>tc_name = ''get_weather'', tc_arguments = Some Map.empty\<rparr>
             \<notin> set (map name ListTools)"
    by (simp add: ListTools_def)
  from unknown_tool_method_not_found [OF h, of example_client 2025 up_ok] h
  show ?thesis by simp
qed

section \<open>Upstream failures\<close>

text \<open>
  Claim C2, as amended. When the request that a registered tool issues for an argument
  mapping is rejected with an axios error (no response at all, or a response with a
  status outside 2xx), the call handler returns a result flagged \<^verbatim>\<open>isError: true\<close>
  whose text is
  \<^verbatim>\<open>FantasyPros API error: \<close> followed by the \<^verbatim>\<open>message\<close> member of the response body
  when that member is truthy, and by the error's own message otherwise; it does not
  throw, as long as the truthy member converts to a string (every scalar does).
\<close>

theorem upstream_failure_error_result:
  assumes "tc_name tc \<in> set (map name ListTools)"
    and "tc_arguments tc = Some args"
    and "\<forall>req \<in> set (requests (CallTool inst year up tc)). up req = Inl (AxiosError e)"
    and "json_ToString (upstream_message e) = Inr s"
  shows "\<exists>req. requests (CallTool inst year up tc) = [req] \<and>
           outcome (CallTool inst year up tc) =
             Inr (error_result (''FantasyPros API error: '' @
               (if json_truthy (upstream_message e) then s else message e)))"
proof -
  from dispatch_registered [OF assms(1) assms(2)]
  obtain req where d: "dispatch inst year up tc = json_text ([req], up req)"
    by blast
  then have "requests (CallTool inst year up tc) = [req]"
    by (simp add: requests_CallTool requests_json_text requests_pair)
  with assms(3) have "up req = Inl (AxiosError e)"
    by simp
  with d have "dispatch inst year up tc = json_text ([req], Inl (AxiosError e))"
    by simp
  from CallTool_failure [OF this assms(4)] show ?thesis
    by (simp add: requests_pair outcome_pair)
qed

theorem upstream_failure_error_result_witness:
  "tc_name \<lparr>tc_name = ''get_sport_news'', tc_arguments = Some [''sport'' \<mapsto> JStr ''nfl'']\<rparr>
     \<in> set (map name ListTools) \<and>
   tc_arguments \<lparr>tc_name = ''get_sport_news'', tc_arguments = Some [''sport'' \<mapsto> JStr ''nfl'']\<rparr>
     = Some [''sport'' \<mapsto> JStr ''nfl''] \<and>
   requests (CallTool example_client 2025
        (up_500 (Object [(''message'', Scalar (JStr ''Invalid API key''))]))
        \<lparr>tc_name = ''get_sport_news'', tc_arguments = Some [''sport'' \<mapsto> JStr ''nfl'']\<rparr>) =
     [request_of example_client ''/nfl/news'' [(''limit'', JNum 25)]] \<and>
   up_500 (Object [(''message'', Scalar (JStr ''Invalid API key''))])
        (request_of example_client ''/nfl/news'' [(''limit'', JNum 25)]) =
     Inl (AxiosError
           \<lparr>message = ''Request failed with status code 500'',
            response = Some \<lparr>status = 500,
                data = Object [(''message'', Scalar (JStr ''Invalid API key''))]\<rparr>\<rparr>) \<and>
   json_ToString (upstream_message
      \<lparr>message = ''Request failed with status code 500'',
       response = Some \<lparr>status = 500,
           data = Object [(''message'', Scalar (JStr ''Invalid API key''))]\<rparr>\<rparr>)
     = Inr ''Invalid API key'' \<and>
   outcome (CallTool example_client 2025
        (up_500 (Object [(''message'', Scalar (JStr ''Invalid API key''))]))
        \<lparr>tc_name = ''get_sport_news'', tc_arguments = Some [''sport'' \<mapsto> JStr ''nfl'']\<rparr>) =
     Inr (error_result ''FantasyPros API error: Invalid API key'') \<and>
   outcome (CallTool example_client 2025 up_down
        \<lparr>tc_name = ''get_sport_news'', tc_arguments = Some [''sport'' \<mapsto> JStr ''nfl'']\<rparr>) =
     Inr (error_result ''FantasyPros API error: Network Error'')"
proof -
  let ?body = "Object [(''message'', Scalar (JStr ''Invalid API key''))]"
  let ?tc = "\<lparr>tc_name = ''get_sport_news'', tc_arguments = Some [''sport'' \<mapsto> JStr ''nfl'']\<rparr>"
  let ?e = "\<lparr>message = ''Request failed with status code 500'',
             response = Some \<lparr>status = 500, data = ?body\<rparr>\<rparr>"
  let ?d = "\<lparr>message = ''Network Error'', response = None\<rparr>"
  have h1: "tc_name ?tc \<in> set (map name ListTools)"
    by (simp add: ListTools_def)
  have ha: "tc_arguments ?tc = Some [''sport'' \<mapsto> JStr ''nfl'']"
    by simp
  have h2: "\<forall>req \<in> set (requests (CallTool example_client 2025 (up_500 ?body) ?tc)).
              up_500 ?body req = Inl (AxiosError ?e)"
    by (simp add: up_500_def)
  have h3: "json_ToString (upstream_message ?e) = Inr ''Invalid API key''"
    by (simp add: upstream_message_def)
  have d2: "\<forall>req \<in> set (requests (CallTool example_client 2025 up_down ?tc)).
              up_down req = Inl (AxiosError ?d)"
    by (simp add: up_down_def)
  have d3: "json_ToString (upstream_message ?d) = Inr ''undefined''"
    by (simp add: upstream_message_def)
  from upstream_failure_error_result [OF h1 ha h2 h3]
  have "outcome (CallTool example_client 2025 (up_500 ?body) ?tc) =
          Inr (error_result ''FantasyPros API error: Invalid API key'')"
    by (simp add: upstream_message_def)
  moreover from upstream_failure_error_result [OF h1 ha d2 d3]
  have "outcome (CallTool example_client 2025 up_down ?tc) =
          Inr (error_result ''FantasyPros API error: Network Error'')"
    by (simp add: upstream_message_def)
  moreover have "requests (CallTool example_client 2025 (up_500 ?body) ?tc) =
      [request_of example_client ''/nfl/news'' [(''limit'', JNum 25)]]"
    by (simp add: requests_eval arg_def arg_default_def)
  moreover have "up_500 ?body (request_of example_client ''/nfl/news'' [(''limit'', JNum 25)])
      = Inl (AxiosError ?e)"
    by (simp add: up_500_def)
  ultimately show ?thesis using h1 ha h3 by blast
qed

text \<open>
  The claim as written takes the upstream message whenever it is present. A body
  \<^verbatim>\<open>{"message": ""}\<close> has the member, and the text carries the transport message.
\<close>

theorem empty_upstream_message_counterexample:
  "upstream_message
      \<lparr>message = ''Request failed with status code 500'',
       response = Some \<lparr>status = 500, data = Object [(''message'', Scalar (JStr ''''))]\<rparr>\<rparr>
     = Scalar (JStr '''') \<and>
   up_500 (Object [(''message'', Scalar (JStr ''''))])
        (request_of example_client ''/json/all/news'' [(''limit'', JNum 25)]) =
     Inl (AxiosError
           \<lparr>message = ''Request failed with status code 500'',
            response = Some \<lparr>status = 500,
                data = Object [(''message'', Scalar (JStr ''''))]\<rparr>\<rparr>) \<and>
   CallTool example_client 2025 (up_500 (Object [(''message'', Scalar (JStr ''''))]))
      \<lparr>tc_name = ''get_all_news'', tc_arguments = Some Map.empty\<rparr> =
     ([request_of example_client ''/json/all/news'' [(''limit'', JNum 25)]],
      Inr (error_result ''FantasyPros API error: Request failed with status code 500'')) \<and>
   outcome (CallTool example_client 2025 (up_500 (Object [(''message'', Scalar (JStr ''''))]))
      \<lparr>tc_name = ''get_all_news'', tc_arguments = Some Map.empty\<rparr>) \<noteq>
     Inr (error_result (''FantasyPros API error: '' @ ToString (JStr '''')))"
  by (simp add: upstream_message_def CallTool_def dispatch_def getAllNews_def json_text_def
      axios_get_def up_500_def error_text_def error_result_def outcome_def Let_def
      arg_def arg_default_def)

section \<open>What determines a request\<close>

text \<open>
  Claim C3, as amended. The requests a call issues are a function of the tool call, the
  client configuration and, for \<^verbatim>\<open>get_rankings\<close> only, the calendar year read from the
  clock: two invocations of the same tool with the same arguments build the same request,
  whatever the upstream answers, provided that for \<^verbatim>\<open>get_rankings\<close> they run in the same
  year.
\<close>

theorem request_determined_by_call_and_year:
  assumes "tc_name tc = ''get_rankings'' \<longrightarrow> y1 = y2"
  shows "requests (CallTool inst y1 up1 tc) = requests (CallTool inst y2 up2 tc)"
  using assms by (cases "tc_arguments tc") (simp_all add: requests_eval)

theorem request_determined_by_call_and_year_witness:
  "tc_name \<lparr>tc_name = ''get_projections'',
             tc_arguments = Some [''sport'' \<mapsto> JStr ''nba'', ''season'' \<mapsto> JStr ''2024'']\<rparr>
     \<noteq> ''get_rankings'' \<and>
   requests (CallTool example_client 2024 up_ok
      \<lparr>tc_name = ''get_projections'',
        tc_arguments = Some [''sport'' \<mapsto> JStr ''nba'', ''season'' \<mapsto> JStr ''2024'']\<rparr>) =
   requests (CallTool example_client 2025 up_down
      \<lparr>tc_name = ''get_projections'',
        tc_arguments = Some [''sport'' \<mapsto> JStr ''nba'', ''season'' \<mapsto> JStr ''2024'']\<rparr>)"
proof -
  let ?tc = "\<lparr>tc_name = ''get_projections'',
               tc_arguments = Some [''sport'' \<mapsto> JStr ''nba'', ''season'' \<mapsto> JStr ''2024'']\<rparr>"
  have h: "tc_name ?tc = ''get_rankings'' \<longrightarrow> (2024::int) = 2025"
    by simp
  from request_determined_by_call_and_year [OF h, of example_client up_ok up_down]
  show ?thesis by simp
qed

text \<open>
  The claim as written makes the request a function of the tool call alone. The same
  \<^verbatim>\<open>get_rankings\<close> call made in 2024 and in 2025 asks for two different paths.
\<close>

theorem getRankings_year_counterexample:
  "requests (CallTool example_client 2024 up_ok
       \<lparr>tc_name = ''get_rankings'', tc_arguments = Some [''sport'' \<mapsto> JStr ''nfl'']\<rparr>) =
     [request_of example_client ''/nfl/2024/consensus-rankings''
        [(''position'', JStr ''ALL''), (''scoring'', JStr ''STD'')]] \<and>
   requests (CallTool example_client 2025 up_ok
       \<lparr>tc_name = ''get_rankings'', tc_arguments = Some [''sport'' \<mapsto> JStr ''nfl'']\<rparr>) =
     [request_of example_client ''/nfl/2025/consensus-rankings''
        [(''position'', JStr ''ALL''), (''scoring'', JStr ''STD'')]] \<and>
   requests (CallTool example_client 2024 up_ok
       \<lparr>tc_name = ''get_rankings'', tc_arguments = Some [''sport'' \<mapsto> JStr ''nfl'']\<rparr>) \<noteq>
   requests (CallTool example_client 2025 up_ok
       \<lparr>tc_name = ''get_rankings'', tc_arguments = Some [''sport'' \<mapsto> JStr ''nfl'']\<rparr>)"
  by (simp add: requests_eval request_of_def Number_toString_def digits.simps
      arg_def arg_default_def)

section \<open>Request builders\<close>













section \<open>Tool listing\<close>

text \<open>
  Claim C8. The listing has exactly five entries, \<^verbatim>\<open>get_sport_news\<close>, \<^verbatim>\<open>get_players\<close>,
  \<^verbatim>\<open>get_rankings\<close>, \<^verbatim>\<open>get_projections\<close> and \<^verbatim>\<open>get_all_news\<close>, and each entry's required
  fields, optional fields and enumerated or bounded fields are those of the table in
  section 4.1 of the specification.
\<close>

theorem ListTools_matches_registry_table:
  "map name ListTools =
     [''get_sport_news'', ''get_players'', ''get_rankings'', ''get_projections'',
      ''get_all_news''] \<and>
   map registry_row ListTools = registry_table"
  by (simp add: ListTools_def registry_table_def registry_row_def required_fields_def
      optional_fields_def tool_constraints_def constraints_of_def enum_prop_def string_prop_def
      number_prop_def sport_news_categories_def insert_commute)

section \<open>Startup\<close>

text \<open>
  Claim C9. Without the variable \<^verbatim>\<open>FANTASYPROS_API_KEY\<close> in the environment, startup
  fails with an error. With the variable set to \<open>k\<close>, a server that starts has the one
  client configured with the base URL and the header \<^verbatim>\<open>x-api-key: k\<close>, every request of
  every tool call carries that base URL and that header, and the server does start when
  \<open>k\<close> is not empty.
\<close>

theorem api_key_required_and_sent:
  "(env ''FANTASYPROS_API_KEY'' = None \<longrightarrow>
      startup env = Inl (Error ''FANTASYPROS_API_KEY environment variable is required'')) \<and>
   (\<forall>k. env ''FANTASYPROS_API_KEY'' = Some k \<longrightarrow>
      (k \<noteq> [] \<longrightarrow>
         startup env = Inr \<lparr>baseURL = ''https://api.fantasypros.com/public/v2'',
                             headers = [(''x-api-key'', k)]\<rparr>) \<and>
      (\<forall>inst year up tc. startup env = Inr inst \<longrightarrow>
         (\<forall>req \<in> set (requests (CallTool inst year up tc)).
            baseURL req = ''https://api.fantasypros.com/public/v2'' \<and>
            headers req = [(''x-api-key'', k)])))"
proof (intro conjI allI impI)
  assume "env ''FANTASYPROS_API_KEY'' = None"
  then show "startup env = Inl (Error ''FANTASYPROS_API_KEY environment variable is required'')"
    by (simp add: startup_def)
next
  fix k
  assume "env ''FANTASYPROS_API_KEY'' = Some k" and "k \<noteq> []"
  then show "startup env = Inr \<lparr>baseURL = ''https://api.fantasypros.com/public/v2'',
                                 headers = [(''x-api-key'', k)]\<rparr>"
    by (simp add: startup_def)
next
  fix k inst year up tc
  assume k: "env ''FANTASYPROS_API_KEY'' = Some k" and s: "startup env = Inr inst"
  from k s have "baseURL inst = ''https://api.fantasypros.com/public/v2''"
    and "headers inst = [(''x-api-key'', k)]"
    by (auto simp add: startup_def split: if_splits)
  with requests_carry_config [of inst year up tc]
  show "\<forall>req \<in> set (requests (CallTool inst year up tc)).
          baseURL req = ''https://api.fantasypros.com/public/v2'' \<and>
          headers req = [(''x-api-key'', k)]"
    by simp
qed

theorem api_key_required_and_sent_witness:
  "(Map.empty :: string \<rightharpoonup> string) ''FANTASYPROS_API_KEY'' = None \<and>
   startup Map.empty = Inl (Error ''FANTASYPROS_API_KEY environment variable is required'') \<and>
   [''FANTASYPROS_API_KEY'' \<mapsto> ''secret''] ''FANTASYPROS_API_KEY'' = Some ''secret'' \<and>
   startup [''FANTASYPROS_API_KEY'' \<mapsto> ''secret''] = Inr example_client \<and>
   requests (CallTool example_client 2025 up_ok
      \<lparr>tc_name = ''get_all_news'', tc_arguments = Some Map.empty\<rparr>) =
     [request_of example_client ''/json/all/news'' [(''limit'', JNum 25)]] \<and>
   baseURL (request_of example_client ''/json/all/news'' [(''limit'', JNum 25)]) =
     ''https://api.fantasypros.com/public/v2'' \<and>
   headers (request_of example_client ''/json/all/news'' [(''limit'', JNum 25)]) =
     [(''x-api-key'', ''secret'')]"
proof -
  let ?env = "[''FANTASYPROS_API_KEY'' \<mapsto> ''secret'']"
  let ?tc = "\<lparr>tc_name = ''get_all_news'', tc_arguments = Some Map.empty\<rparr>"
  have e0: "(Map.empty :: string \<rightharpoonup> string) ''FANTASYPROS_API_KEY'' = None"
    by simp
  have e1: "?env ''FANTASYPROS_API_KEY'' = Some ''secret''"
    by simp
  from api_key_required_and_sent [of Map.empty] e0
  have a: "startup Map.empty =
      Inl (Error ''FANTASYPROS_API_KEY environment variable is required'')"
    by blast
  from api_key_required_and_sent [of ?env] e1
  have b: "startup ?env = Inr example_client"
    by (simp add: example_client_def)
  have r: "requests (CallTool example_client 2025 up_ok ?tc) =
      [request_of example_client ''/json/all/news'' [(''limit'', JNum 25)]]"
    by (simp add: requests_eval arg_def arg_default_def)
  from api_key_required_and_sent [of ?env] e1 b
  have "\<forall>req \<in> set (requests (CallTool example_client 2025 up_ok ?tc)).
          baseURL req = ''https://api.fantasypros.com/public/v2'' \<and>
          headers req = [(''x-api-key'', ''secret'')]"
    by blast
  with r have
    "baseURL (request_of example_client ''/json/all/news'' [(''limit'', JNum 25)]) =
       ''https://api.fantasypros.com/public/v2'' \<and>
     headers (request_of example_client ''/json/all/news'' [(''limit'', JNum 25)]) =
       [(''x-api-key'', ''secret'')]"
    by simp
  with e0 e1 a b r show ?thesis by blast
qed

section \<open>Empty optional arguments\<close>


end
